theory Spec2Isabelle
  imports Main
begin

section \<open>The player adapter of GStreamerPlayer.cpp\<close>

text \<open>
  The class \<^verbatim>\<open>GStreamerPlayer\<close> is embedded as a record of its member variables and
  one function per member function. Everything the adapter does to the outside world
  (signals it emits, calls it makes on the media framework) is appended to a trace, in
  the order the statements of the source run. The media framework itself is a parameter:
  what \<^verbatim>\<open>parseLaunch\<close>, \<^verbatim>\<open>findUnlinkedPad\<close>, \<^verbatim>\<open>parentElement\<close> and \<^verbatim>\<open>bus\<close> answer.
\<close>

subsection \<open>Data\<close>

text \<open>Framework objects (pipelines, elements, pads, buses) are named by handles; a
  null \<^verbatim>\<open>RefPointer\<close> is \<open>None\<close>.\<close>

type_synonym handle = nat

text \<open>The enum \<^verbatim>\<open>QGst::State\<close>.\<close>

datatype gst_state = StateVoidPending | StateNull | StateReady | StatePaused | StatePlaying

text \<open>The signals of the class, with their argument.\<close>

datatype signal =
    playingChanged bool
  | pausedChanged bool
  | stoppedChanged bool
  | messageBox string

datatype prop_value = CapsValue string | BoolValue bool

text \<open>
  What the adapter does to its surroundings. A signal is delivered to its slots while
  the \<^verbatim>\<open>emit\<close> statement runs, so \<open>Emit\<close> also records the values of
  \<^verbatim>\<open>(m_playing, m_paused, m_stopped)\<close> at that moment: this is what a slot reading the
  three properties sees.
\<close>

datatype effect =
    Emit signal "bool \<times> bool \<times> bool"
  | SetState handle gst_state
  | BinRemove handle "handle option"
  | ParseLaunch string
  | SetProperty handle string prop_value
  | BinAdd handle handle
  | Link handle handle
  | AddSignalWatch handle
  | ConnectMessage handle
  | SendEvent handle
  | LogCritical string

text \<open>A one-shot \<^verbatim>\<open>QTimer\<close>: whether it is single-shot and whether it is running.\<close>

record timer =
  singleShot :: bool
  active :: bool

record player =
  m_playing :: bool
  m_paused :: bool
  m_stopped :: bool
  m_currentPipelineString :: string
  m_pipelineString :: string
  m_pipeline :: "handle option"
  m_videoSink :: "handle option"
  m_stopTimer :: timer
  m_playTimer :: timer
  trace :: "effect list"

text \<open>The answers of the media framework.\<close>

record emf =
  parseLaunch :: "string \<Rightarrow> handle option"
  findUnlinkedPad :: "handle \<Rightarrow> handle option"
  parentElement :: "handle \<Rightarrow> handle option"
  bus :: "handle \<Rightarrow> handle"

text \<open>Bus messages, by \<^verbatim>\<open>message->type()\<close>, each with \<^verbatim>\<open>message->source()\<close>; an error
  message carries its text and a state change its \<^verbatim>\<open>newState()\<close>, the only field of it the
  adapter reads. \<open>MessageOther\<close> is any other message type.\<close>

datatype message =
    MessageEos "handle option"
  | MessageError "handle option" string
  | MessageStateChanged "handle option" gst_state
  | MessageOther "handle option"

text \<open>\<^verbatim>\<open>RefPointer::operator->\<close> on a null pointer does not return. The state at
  that point is kept with the error.\<close>

datatype error = NullDereference

type_synonym 'a result = "(error \<times> player) + ('a \<times> player)"

subsection \<open>Operations\<close>

definition observable :: "player \<Rightarrow> bool \<times> bool \<times> bool" where
  "observable s = (m_playing s, m_paused s, m_stopped s)"

definition effect :: "effect \<Rightarrow> player \<Rightarrow> player" where
  "effect e s = s\<lparr>trace := trace s @ [e]\<rparr>"

definition emit :: "signal \<Rightarrow> player \<Rightarrow> player" where
  "emit sg s = effect (Emit sg (observable s)) s"

text \<open>The constructor (lines 30-46). The two pointers start null and the timers stopped.\<close>

definition GStreamerPlayer :: player where
  "GStreamerPlayer =
     \<lparr>m_playing = False, m_paused = False, m_stopped = True,
      m_currentPipelineString = [], m_pipelineString = [],
      m_pipeline = None, m_videoSink = None,
      m_stopTimer = \<lparr>singleShot = True, active = False\<rparr>,
      m_playTimer = \<lparr>singleShot = True, active = False\<rparr>,
      trace = []\<rparr>"

definition setVideoSink :: "handle option \<Rightarrow> player \<Rightarrow> player" where
  "setVideoSink sink s = s\<lparr>m_videoSink := sink\<rparr>"

definition pause :: "player \<Rightarrow> player" where
  "pause s = (case m_pipeline s of None \<Rightarrow> s | Some p \<Rightarrow> effect (SetState p StatePaused) s)"

definition stop :: "player \<Rightarrow> player" where
  "stop s = (case m_pipeline s of None \<Rightarrow> s | Some p \<Rightarrow> effect (SetState p StateNull) s)"

text \<open>The destructor (lines 48-51) is \<^verbatim>\<open>stop()\<close>. \<^verbatim>\<open>toggleFullScreen\<close> (lines 84-117)
  acts on the parent windows only and reads or writes none of the members above; it is
  not part of this development.\<close>

definition destructor :: "player \<Rightarrow> player" where
  "destructor s = stop s"

text \<open>\<^verbatim>\<open>initialize\<close> (lines 119-166), statement by statement. The description is
  handed to the parser as it is (its UTF-8 bytes). The two \<^verbatim>\<open>->\<close> on a pointer that can
  be null, the parent element of the pad and the video sink, are the two error branches;
  \<^verbatim>\<open>remove\<close> is only passed the sink pointer, null or not.\<close>

definition initialize :: "emf \<Rightarrow> player \<Rightarrow> unit result" where
  "initialize env s0 =
     (if m_pipelineString s0 \<noteq> [] \<and> m_pipelineString s0 \<noteq> m_currentPipelineString s0 then
        let s1 = s0\<lparr>m_currentPipelineString := []\<rparr>;
            s2 = stop s1;
            s3 = (case m_pipeline s2 of
                    None \<Rightarrow> s2
                  | Some p \<Rightarrow> (effect (BinRemove p (m_videoSink s2)) s2)\<lparr>m_pipeline := None\<rparr>);
            s4 = effect (ParseLaunch (m_pipelineString s3)) s3;
            s5 = s4\<lparr>m_pipeline := parseLaunch env (m_pipelineString s4)\<rparr>
        in (case m_pipeline s5 of
              Some p \<Rightarrow>
                (case findUnlinkedPad env p of
                   Some src \<Rightarrow>
                     (case parentElement env src of
                        None \<Rightarrow> Inl (NullDereference, s5)
                      | Some el \<Rightarrow>
                          let s6 = effect (SetProperty el ''caps''
                                     (CapsValue ''video/x-raw, format=I420'')) s5
                          in (case m_videoSink s6 of
                                None \<Rightarrow> Inl (NullDereference, s6)
                              | Some sink \<Rightarrow>
                                  let s7 = effect (SetProperty sink ''sync'' (BoolValue False)) s6;
                                      s8 = effect (BinAdd p sink) s7;
                                      s9 = effect (Link el sink) s8;
                                      s10 = effect (AddSignalWatch (bus env p)) s9;
                                      s11 = effect (ConnectMessage (bus env p)) s10
                                  in Inr ((), s11\<lparr>m_currentPipelineString := m_pipelineString s11\<rparr>)))
                 | None \<Rightarrow>
                     let msg = ''The Pipeline command string has no unlinked video source element, cannot link pipeline. String = ''
                                 @ m_pipelineString s5;
                         s6 = emit (messageBox msg) s5
                     in Inr ((), s6\<lparr>m_pipeline := None\<rparr>))
            | None \<Rightarrow>
                let msg = ''Failed to create the pipeline '' @ [CHR 0x27] @ m_pipelineString s5
                            @ [CHR 0x27] @ ''!''
                in Inr ((), emit (messageBox msg) s5))
      else Inr ((), s0))"

text \<open>\<^verbatim>\<open>play\<close> (lines 58-68).\<close>

definition play :: "emf \<Rightarrow> player \<Rightarrow> bool result" where
  "play env s =
     (case initialize env s of
        Inl err \<Rightarrow> Inl err
      | Inr (_, s1) \<Rightarrow>
          (case m_pipeline s1 of
             Some p \<Rightarrow> Inr (True, effect (SetState p StatePlaying) s1)
           | None \<Rightarrow> Inr (False, s1)))"

text \<open>\<^verbatim>\<open>handlePipelineStateChange\<close> (lines 189-217). The switch has no default:
  any other state falls through it.\<close>

definition handlePipelineStateChange :: "gst_state \<Rightarrow> player \<Rightarrow> player" where
  "handlePipelineStateChange newState s0 =
     (case newState of
        StatePlaying \<Rightarrow>
          let s1 = s0\<lparr>m_playing := True\<rparr>;
              s2 = emit (playingChanged (m_playing s1)) s1;
              s3 = s2\<lparr>m_paused := False\<rparr>;
              s4 = emit (pausedChanged (m_paused s3)) s3;
              s5 = s4\<lparr>m_stopped := False\<rparr>
          in emit (stoppedChanged (m_stopped s5)) s5
      | StatePaused \<Rightarrow>
          let s1 = s0\<lparr>m_playing := False\<rparr>;
              s2 = emit (playingChanged (m_playing s1)) s1;
              s3 = s2\<lparr>m_paused := True\<rparr>;
              s4 = emit (pausedChanged (m_paused s3)) s3;
              s5 = s4\<lparr>m_stopped := False\<rparr>
          in emit (stoppedChanged (m_stopped s5)) s5
      | StateNull \<Rightarrow>
          let s1 = s0\<lparr>m_playing := False\<rparr>;
              s2 = emit (playingChanged (m_playing s1)) s1;
              s3 = s2\<lparr>m_paused := False\<rparr>;
              s4 = emit (pausedChanged (m_paused s3)) s3;
              s5 = s4\<lparr>m_stopped := True\<rparr>
          in emit (stoppedChanged (m_stopped s5)) s5
      | _ \<Rightarrow> s0)"

text \<open>\<^verbatim>\<open>onBusMessage\<close> (lines 168-187).\<close>

definition onBusMessage :: "message \<Rightarrow> player \<Rightarrow> player" where
  "onBusMessage message s =
     (case message of
        MessageEos _ \<Rightarrow> stop s
      | MessageError _ err \<Rightarrow> stop (effect (LogCritical err) s)
      | MessageStateChanged source newState \<Rightarrow>
          if m_pipeline s \<noteq> None \<and> source = m_pipeline s
          then handlePipelineStateChange newState s
          else s
      | MessageOther _ \<Rightarrow> s)"

text \<open>\<^verbatim>\<open>sendEOS\<close> (lines 219-224). The event object is created in either case and
  sent only to a pipeline that exists.\<close>

definition sendEOS :: "player \<Rightarrow> player" where
  "sendEOS s = (case m_pipeline s of None \<Rightarrow> s | Some p \<Rightarrow> effect (SendEvent p) s)"

text \<open>The timer slots (lines 226-254).\<close>

definition onStopTimer :: "player \<Rightarrow> player" where
  "onStopTimer s0 =
     (let s1 = s0\<lparr>m_stopTimer := (m_stopTimer s0)\<lparr>active := False\<rparr>\<rparr>;
          s2 = s1\<lparr>m_stopped := True\<rparr>;
          s3 = emit (stoppedChanged (m_stopped s2)) s2;
          s4 = s3\<lparr>m_paused := False\<rparr>;
          s5 = emit (pausedChanged (m_paused s4)) s4;
          s6 = s5\<lparr>m_playing := False\<rparr>;
          s7 = emit (playingChanged (m_playing s6)) s6
      in stop s7)"

definition onPlayTimer :: "emf \<Rightarrow> player \<Rightarrow> bool result" where
  "onPlayTimer env s0 =
     (let s1 = s0\<lparr>m_playTimer := (m_playTimer s0)\<lparr>active := False\<rparr>\<rparr>;
          s2 = s1\<lparr>m_playing := True\<rparr>;
          s3 = emit (playingChanged (m_playing s2)) s2;
          s4 = s3\<lparr>m_paused := False\<rparr>;
          s5 = emit (pausedChanged (m_paused s4)) s4;
          s6 = s5\<lparr>m_stopped := False\<rparr>;
          s7 = emit (stoppedChanged (m_stopped s6)) s6
      in play env s7)"

subsection \<open>Reading a run\<close>

text \<open>The state a call ends in, returned or not.\<close>

definition final :: "'a result \<Rightarrow> player" where
  "final r = (case r of Inl (_, s) \<Rightarrow> s | Inr (_, s) \<Rightarrow> s)"

text \<open>What a call appended to the trace.\<close>

definition effects_since :: "player \<Rightarrow> player \<Rightarrow> effect list" where
  "effects_since s s' = drop (length (trace s)) (trace s')"

fun is_notification :: "effect \<Rightarrow> bool" where
  "is_notification (Emit (playingChanged _) _) = True"
| "is_notification (Emit (pausedChanged _) _) = True"
| "is_notification (Emit (stoppedChanged _) _) = True"
| "is_notification _ = False"

fun is_messageBox :: "effect \<Rightarrow> bool" where
  "is_messageBox (Emit (messageBox _) _) = True"
| "is_messageBox _ = False"

fun emitted :: "effect \<Rightarrow> signal option" where
  "emitted (Emit sg _) = Some sg"
| "emitted _ = None"

definition exactly_one :: "bool \<times> bool \<times> bool \<Rightarrow> bool" where
  "exactly_one t = (case t of (a, b, c) \<Rightarrow>
     (a \<and> \<not> b \<and> \<not> c) \<or> (\<not> a \<and> b \<and> \<not> c) \<or> (\<not> a \<and> \<not> b \<and> c))"


subsection \<open>A concrete framework\<close>

text \<open>A framework to run the operations on: it parses two descriptions, only the
  first of which leaves a source pad unlinked (pad 10 of element 11), and nothing else.\<close>

definition sample_emf :: emf where
  "sample_emf =
     \<lparr>parseLaunch = (\<lambda>d. if d = ''videotestsrc'' then Some 1
                          else if d = ''videotestsrc ! videoconvert ! fakesink'' then Some 2
                          else None),
      findUnlinkedPad = (\<lambda>p. if p = 1 then Some 10 else None),
      parentElement = (\<lambda>pad. if pad = 10 then Some 11 else None),
      bus = (\<lambda>p. p + 100)\<rparr>"

text \<open>A fresh adapter with the description set, and the adapter after the sink 5 was
  set and \<^verbatim>\<open>play()\<close> was called: it holds the pipeline 1.\<close>

definition configured_player :: "string \<Rightarrow> player" where
  "configured_player d = GStreamerPlayer\<lparr>m_pipelineString := d\<rparr>"

definition live_player :: player where
  "live_player = final (play sample_emf (setVideoSink (Some 5) (configured_player ''videotestsrc'')))"

text \<open>A framework that parses one other description, to pipeline 3 with the unlinked
  source pad 12 of element 13.\<close>

definition second_emf :: emf where
  "second_emf =
     \<lparr>parseLaunch = (\<lambda>d. if d = ''videotestsrc ! videoconvert'' then Some 3 else None),
      findUnlinkedPad = (\<lambda>p. if p = 3 then Some 12 else None),
      parentElement = (\<lambda>pad. if pad = 12 then Some 13 else None),
      bus = (\<lambda>p. p + 100)\<rparr>"

section \<open>Properties\<close>

subsection \<open>Evaluation and frame lemmas\<close>

lemma live_player_eq:
  "live_player =
     \<lparr>m_playing = False, m_paused = False, m_stopped = True,
      m_currentPipelineString = ''videotestsrc'', m_pipelineString = ''videotestsrc'',
      m_pipeline = Some 1, m_videoSink = Some 5,
      m_stopTimer = \<lparr>singleShot = True, active = False\<rparr>,
      m_playTimer = \<lparr>singleShot = True, active = False\<rparr>,
      trace =
        [ParseLaunch ''videotestsrc'',
         SetProperty 11 ''caps'' (CapsValue ''video/x-raw, format=I420''),
         SetProperty 5 ''sync'' (BoolValue False), BinAdd 1 5, Link 11 5,
         AddSignalWatch 101, ConnectMessage 101, SetState 1 StatePlaying]\<rparr>"
  by (simp add: live_player_def configured_player_def sample_emf_def play_def initialize_def
      GStreamerPlayer_def setVideoSink_def stop_def effect_def final_def Let_def)

lemma handlePipelineStateChange_Playing:
  "handlePipelineStateChange StatePlaying s =
     s\<lparr>m_playing := True, m_paused := False, m_stopped := False,
       trace := trace s @
         [Emit (playingChanged True) (True, m_paused s, m_stopped s),
          Emit (pausedChanged False) (True, False, m_stopped s),
          Emit (stoppedChanged False) (True, False, False)]\<rparr>"
  by (simp add: handlePipelineStateChange_def emit_def effect_def observable_def Let_def)

lemma handlePipelineStateChange_Paused:
  "handlePipelineStateChange StatePaused s =
     s\<lparr>m_playing := False, m_paused := True, m_stopped := False,
       trace := trace s @
         [Emit (playingChanged False) (False, m_paused s, m_stopped s),
          Emit (pausedChanged True) (False, True, m_stopped s),
          Emit (stoppedChanged False) (False, True, False)]\<rparr>"
  by (simp add: handlePipelineStateChange_def emit_def effect_def observable_def Let_def)

lemma handlePipelineStateChange_Null:
  "handlePipelineStateChange StateNull s =
     s\<lparr>m_playing := False, m_paused := False, m_stopped := True,
       trace := trace s @
         [Emit (playingChanged False) (False, m_paused s, m_stopped s),
          Emit (pausedChanged False) (False, False, m_stopped s),
          Emit (stoppedChanged True) (False, False, True)]\<rparr>"
  by (simp add: handlePipelineStateChange_def emit_def effect_def observable_def Let_def)

lemma handlePipelineStateChange_other:
  "newState = StateReady \<or> newState = StateVoidPending \<Longrightarrow>
     handlePipelineStateChange newState s = s"
  by (auto simp: handlePipelineStateChange_def)

lemma onBusMessage_from_pipeline:
  "m_pipeline s = Some p \<Longrightarrow>
     onBusMessage (MessageStateChanged (Some p) newState) s = handlePipelineStateChange newState s"
  by (simp add: onBusMessage_def)

subsection \<open>The state publisher\<close>

text \<open>
  C1. A state-change message whose source is the pipeline the adapter holds leaves the
  triple (playing, paused, stopped) at (true, false, false) for Playing, (false, true,
  false) for Paused and (false, false, true) for Null, and in each case the call emits
  exactly the three notifications playingChanged, pausedChanged, stoppedChanged with these
  values, whatever the triple was before (nothing is compared with the old values).
\<close>

theorem state_publisher_publishes:
  assumes "m_pipeline s = Some p"
  shows "observable (onBusMessage (MessageStateChanged (Some p) StatePlaying) s)
           = (True, False, False)
       \<and> map emitted (effects_since s (onBusMessage (MessageStateChanged (Some p) StatePlaying) s))
           = [Some (playingChanged True), Some (pausedChanged False), Some (stoppedChanged False)]
       \<and> observable (onBusMessage (MessageStateChanged (Some p) StatePaused) s)
           = (False, True, False)
       \<and> map emitted (effects_since s (onBusMessage (MessageStateChanged (Some p) StatePaused) s))
           = [Some (playingChanged False), Some (pausedChanged True), Some (stoppedChanged False)]
       \<and> observable (onBusMessage (MessageStateChanged (Some p) StateNull) s)
           = (False, False, True)
       \<and> map emitted (effects_since s (onBusMessage (MessageStateChanged (Some p) StateNull) s))
           = [Some (playingChanged False), Some (pausedChanged False), Some (stoppedChanged True)]"
  using assms
  by (simp add: onBusMessage_from_pipeline handlePipelineStateChange_Playing
      handlePipelineStateChange_Paused handlePipelineStateChange_Null
      observable_def effects_since_def)

text \<open>The adapter holding pipeline 1 is stopped already; a Null message from the
  pipeline still emits the three notifications.\<close>

theorem state_publisher_publishes_witness:
  "m_pipeline live_player = Some 1
   \<and> observable live_player = (False, False, True)
   \<and> observable (onBusMessage (MessageStateChanged (Some 1) StateNull) live_player)
       = (False, False, True)
   \<and> map emitted (effects_since live_player
         (onBusMessage (MessageStateChanged (Some 1) StateNull) live_player))
       = [Some (playingChanged False), Some (pausedChanged False), Some (stoppedChanged True)]"
proof -
  have held: "m_pipeline live_player = Some 1"
    by (simp add: live_player_eq)
  have "observable live_player = (False, False, True)"
    by (simp add: live_player_eq observable_def)
  with held state_publisher_publishes [OF held] show ?thesis
    by simp
qed

text \<open>
  C2. Exactly one of playing, paused, stopped is true in the adapter as constructed, and
  after the handling of a state-change message with new state Playing, Paused or Null
  (by the publisher itself, and by the bus callback when the message comes from the
  pipeline held).
\<close>

theorem exactly_one_after_transition:
  "exactly_one (observable GStreamerPlayer)
   \<and> (newState \<in> {StatePlaying, StatePaused, StateNull} \<longrightarrow>
        exactly_one (observable (handlePipelineStateChange newState s))
        \<and> (m_pipeline s = Some p \<longrightarrow>
             exactly_one (observable (onBusMessage (MessageStateChanged (Some p) newState) s))))"
  by (auto simp: exactly_one_def observable_def GStreamerPlayer_def onBusMessage_from_pipeline
      handlePipelineStateChange_Playing handlePipelineStateChange_Paused
      handlePipelineStateChange_Null)

theorem exactly_one_after_transition_witness:
  "StatePaused \<in> {StatePlaying, StatePaused, StateNull}
   \<and> m_pipeline live_player = Some 1
   \<and> exactly_one (observable (handlePipelineStateChange StatePaused live_player))
   \<and> exactly_one (observable (onBusMessage (MessageStateChanged (Some 1) StatePaused) live_player))"
  using exactly_one_after_transition [of StatePaused live_player 1]
  by (simp add: live_player_eq)


text \<open>
  C3, as the specification states it, fails: with the adapter stopped, the slot of the
  first notification of a Playing message reads (true, false, true), while the triple
  the call ends with is (true, false, false).
\<close>

theorem first_notification_sees_old_fields:
  "hd (effects_since live_player
         (onBusMessage (MessageStateChanged (Some 1) StatePlaying) live_player))
     = Emit (playingChanged True) (True, False, True)
   \<and> observable (onBusMessage (MessageStateChanged (Some 1) StatePlaying) live_player)
     = (True, False, False)"
  by (simp add: live_player_eq onBusMessage_def handlePipelineStateChange_Playing
      effects_since_def observable_def)

text \<open>
  C3, amended. Within one dispatch of a state-change message (Playing, Paused or Null,
  from the pipeline held) each field is assigned just before its own notification, in the
  order playing, paused, stopped: the first notification is seen with the new playing and
  the paused and stopped of before the dispatch, the second with the new playing and
  paused and the stopped of before the dispatch, and the third with the complete new
  triple. (So an earlier notification is seen with the complete new triple just when
  the fields not yet assigned had their new values already.)
\<close>

theorem notifications_interleaved_with_updates:
  assumes "m_pipeline s = Some p"
    and "newState \<in> {StatePlaying, StatePaused, StateNull}"
  shows "case observable (onBusMessage (MessageStateChanged (Some p) newState) s) of
           (a, b, c) \<Rightarrow>
             effects_since s (onBusMessage (MessageStateChanged (Some p) newState) s) =
               [Emit (playingChanged a) (a, m_paused s, m_stopped s),
                Emit (pausedChanged b) (a, b, m_stopped s),
                Emit (stoppedChanged c) (a, b, c)]"
  using assms
  by (auto simp: onBusMessage_from_pipeline handlePipelineStateChange_Playing
      handlePipelineStateChange_Paused handlePipelineStateChange_Null
      observable_def effects_since_def)

theorem notifications_interleaved_with_updates_witness:
  "m_pipeline live_player = Some 1
   \<and> StatePlaying \<in> {StatePlaying, StatePaused, StateNull}
   \<and> effects_since live_player
        (onBusMessage (MessageStateChanged (Some 1) StatePlaying) live_player) =
        [Emit (playingChanged True) (True, False, True),
         Emit (pausedChanged False) (True, False, True),
         Emit (stoppedChanged False) (True, False, False)]"
proof -
  have held: "m_pipeline live_player = Some 1"
    by (simp add: live_player_eq)
  have new: "observable (onBusMessage (MessageStateChanged (Some 1) StatePlaying) live_player)
      = (True, False, False)"
    using held
    by (simp add: onBusMessage_def handlePipelineStateChange_Playing observable_def)
  have old: "m_paused live_player = False" "m_stopped live_player = True"
    by (simp_all add: live_player_eq)
  from notifications_interleaved_with_updates [OF held, of StatePlaying] new old held
  show ?thesis by simp
qed

text \<open>
  C10. A state-change message is ignored altogether (the adapter is left as it was: the
  triple is the same and nothing is emitted or done) when its new state is none of
  Playing, Paused and Null, when the adapter holds no pipeline, and when its source is
  not the pipeline held.
\<close>

theorem other_state_changes_ignored:
  assumes "newState \<notin> {StatePlaying, StatePaused, StateNull}
           \<or> m_pipeline s = None \<or> source \<noteq> m_pipeline s"
  shows "onBusMessage (MessageStateChanged source newState) s = s
       \<and> observable (onBusMessage (MessageStateChanged source newState) s) = observable s
       \<and> effects_since s (onBusMessage (MessageStateChanged source newState) s) = []"
proof -
  have "onBusMessage (MessageStateChanged source newState) s = s"
  proof (cases "m_pipeline s \<noteq> None \<and> source = m_pipeline s")
    case True
    with assms have "newState = StateReady \<or> newState = StateVoidPending"
      by (cases newState) auto
    with True show ?thesis
      by (simp add: onBusMessage_def handlePipelineStateChange_other)
  next
    case False
    then show ?thesis
      by (auto simp: onBusMessage_def)
  qed
  then show ?thesis
    by (simp add: effects_since_def)
qed

text \<open>Ready from the pipeline held, Playing from one of its elements, and Playing
  for an adapter without a pipeline.\<close>

theorem other_state_changes_ignored_witness:
  "StateReady \<notin> {StatePlaying, StatePaused, StateNull}
   \<and> m_pipeline live_player = Some 1
   \<and> onBusMessage (MessageStateChanged (Some 1) StateReady) live_player = live_player
   \<and> Some 11 \<noteq> m_pipeline live_player
   \<and> onBusMessage (MessageStateChanged (Some 11) StatePlaying) live_player = live_player
   \<and> m_pipeline GStreamerPlayer = None
   \<and> onBusMessage (MessageStateChanged (Some 1) StatePlaying) GStreamerPlayer = GStreamerPlayer"
proof -
  have a: "StateReady \<notin> {StatePlaying, StatePaused, StateNull}" by simp
  have b: "Some 11 \<noteq> m_pipeline live_player" "m_pipeline live_player = Some 1"
    by (simp_all add: live_player_eq)
  have c: "m_pipeline GStreamerPlayer = None" by (simp add: GStreamerPlayer_def)
  from a b c
    other_state_changes_ignored [of StateReady live_player "Some 1"]
    other_state_changes_ignored [of StatePlaying live_player "Some 11"]
    other_state_changes_ignored [of StatePlaying GStreamerPlayer "Some 1"]
  show ?thesis by simp
qed


subsection \<open>Building the pipeline\<close>

text \<open>Whatever \<^verbatim>\<open>initialize\<close> and \<^verbatim>\<open>play\<close> do, they only append to the trace, and none
  of what they append is a notification of the triple.\<close>

lemma initialize_appends:
  "\<exists>rest. trace (final (initialize env s)) = trace s @ rest \<and> filter is_notification rest = []"
  by (auto simp: initialize_def stop_def effect_def emit_def final_def Let_def
      split: option.splits)

lemma play_appends:
  "\<exists>rest. trace (final (play env s)) = trace s @ rest \<and> filter is_notification rest = []"
proof -
  obtain rest where rest: "trace (final (initialize env s)) = trace s @ rest"
    "filter is_notification rest = []"
    using initialize_appends by blast
  show ?thesis
  proof (cases "initialize env s")
    case (Inl crash)
    then have "final (play env s) = final (initialize env s)"
      by (simp add: play_def final_def)
    with rest show ?thesis
      by metis
  next
    case (Inr r)
    obtain u s1 where r: "r = (u, s1)" by (cases r)
    from rest Inr r have s1: "trace s1 = trace s @ rest"
      by (simp add: final_def)
    show ?thesis
    proof (cases "m_pipeline s1")
      case None
      with Inr r s1 rest(2) show ?thesis
        by (auto simp: play_def final_def)
    next
      case (Some p)
      with Inr r s1 have "trace (final (play env s)) = trace s @ (rest @ [SetState p StatePlaying])"
        by (simp add: play_def final_def effect_def)
      moreover from rest(2) have "filter is_notification (rest @ [SetState p StatePlaying]) = []"
        by simp
      ultimately show ?thesis by blast
    qed
  qed
qed

text \<open>A call of \<^verbatim>\<open>play\<close> on an adapter that has a description, no current description
  and no pipeline starts by parsing the description.\<close>

lemma play_parses_first:
  assumes "m_pipelineString s \<noteq> []" "m_currentPipelineString s = []" "m_pipeline s = None"
  shows "\<exists>rest. effects_since s (final (play env s)) = ParseLaunch (m_pipelineString s) # rest"
  using assms
  by (auto simp: play_def initialize_def stop_def effect_def emit_def final_def
      effects_since_def Let_def split: option.splits)

text \<open>
  C4, as the specification states it, fails for an empty description: the adapter that
  holds pipeline 1, built from "videotestsrc", and is then given the empty description
  does not touch the pipeline in \<^verbatim>\<open>play()\<close>; it requests Playing of pipeline 1 and returns
  true, with the current description still "videotestsrc" and not the desired one.
\<close>

theorem play_keeps_pipeline_on_empty_description:
  "m_pipelineString (live_player\<lparr>m_pipelineString := []\<rparr>) = []
   \<and> play sample_emf (live_player\<lparr>m_pipelineString := []\<rparr>) =
       Inr (True, live_player\<lparr>m_pipelineString := [],
                   trace := trace live_player @ [SetState 1 StatePlaying]\<rparr>)
   \<and> m_pipeline (final (play sample_emf (live_player\<lparr>m_pipelineString := []\<rparr>))) = Some 1
   \<and> m_currentPipelineString (final (play sample_emf (live_player\<lparr>m_pipelineString := []\<rparr>)))
       = ''videotestsrc''"
  by (simp add: live_player_eq play_def initialize_def effect_def final_def)

text \<open>
  C4, amended. \<^verbatim>\<open>play()\<close> runs \<^verbatim>\<open>initialize()\<close> first and crashes only where that does;
  it returns when the sink has been set and the unlinked pad found has a parent element.
  If \<^verbatim>\<open>initialize()\<close> returns, \<^verbatim>\<open>play()\<close> returns true exactly if the adapter holds a
  pipeline then, after requesting Playing of this pipeline as its only further effect,
  and false without any further effect otherwise. For a description that is not empty
  the pipeline is made to match it: when it differs from the current description and
  the framework parses it to a pipeline with an unlinked source pad, the old pipeline
  (if any) is set to Null and the sink removed from it, the new pipeline is parsed,
  given the caps, the sink and the bus watch, and committed as current, and Playing is
  requested of the new pipeline; and whenever \<^verbatim>\<open>play()\<close> returns true for a description
  that is not empty, the current description is that description. For the empty
  description nothing is reconciled: the pipeline held, whatever it was built from, is
  kept and played. \<^verbatim>\<open>play()\<close> returns false exactly when a rebuild was due and the
  description did not parse to a pipeline or had no unlinked source pad, or when no
  rebuild was due and there was no pipeline.
\<close>

theorem play_reconciles_then_requests_playing:
  "(case play env s of
      Inl crash \<Rightarrow> initialize env s = Inl crash
    | Inr (b, s') \<Rightarrow>
        (\<exists>s1. initialize env s = Inr ((), s1)
           \<and> b = (m_pipeline s1 \<noteq> None)
           \<and> s' = s1\<lparr>trace := trace s1 @
                  (case m_pipeline s1 of None \<Rightarrow> [] | Some p \<Rightarrow> [SetState p StatePlaying])\<rparr>))
   \<and> (m_videoSink s \<noteq> None
        \<and> (\<forall>p src. parseLaunch env (m_pipelineString s) = Some p
               \<and> findUnlinkedPad env p = Some src \<longrightarrow> parentElement env src \<noteq> None)
      \<longrightarrow> (\<exists>b s'. play env s = Inr (b, s') \<and> b = (m_pipeline s' \<noteq> None)))
   \<and> ((\<exists>s'. play env s = Inr (False, s')) \<longleftrightarrow>
        (if m_pipelineString s \<noteq> [] \<and> m_pipelineString s \<noteq> m_currentPipelineString s
         then parseLaunch env (m_pipelineString s) = None
              \<or> (\<exists>p. parseLaunch env (m_pipelineString s) = Some p \<and> findUnlinkedPad env p = None)
         else m_pipeline s = None))
   \<and> (m_pipelineString s \<noteq> [] \<and> m_pipelineString s \<noteq> m_currentPipelineString s
        \<and> parseLaunch env (m_pipelineString s) = Some p
        \<and> findUnlinkedPad env p = Some src
        \<and> parentElement env src = Some el
        \<and> m_videoSink s = Some sink
      \<longrightarrow> play env s =
            Inr (True,
              s\<lparr>m_currentPipelineString := m_pipelineString s, m_pipeline := Some p,
                trace := trace s
                  @ (case m_pipeline s of None \<Rightarrow> []
                     | Some old \<Rightarrow> [SetState old StateNull, BinRemove old (m_videoSink s)])
                  @ [ParseLaunch (m_pipelineString s),
                     SetProperty el ''caps'' (CapsValue ''video/x-raw, format=I420''),
                     SetProperty sink ''sync'' (BoolValue False),
                     BinAdd p sink, Link el sink,
                     AddSignalWatch (bus env p), ConnectMessage (bus env p),
                     SetState p StatePlaying]\<rparr>))
   \<and> (m_pipelineString s \<noteq> [] \<and> play env s = Inr (True, t) \<longrightarrow>
        m_pipelineString t = m_pipelineString s
        \<and> m_currentPipelineString t = m_pipelineString s
        \<and> (m_pipelineString s \<noteq> m_currentPipelineString s \<longrightarrow>
             m_pipeline t = parseLaunch env (m_pipelineString s)))
   \<and> (m_pipelineString s = [] \<longrightarrow>
        play env s = Inr (m_pipeline s \<noteq> None,
          s\<lparr>trace := trace s @
             (case m_pipeline s of None \<Rightarrow> [] | Some old \<Rightarrow> [SetState old StatePlaying])\<rparr>))"
proof -
  have first: "case play env s of
      Inl crash \<Rightarrow> initialize env s = Inl crash
    | Inr (b, s') \<Rightarrow>
        (\<exists>s1. initialize env s = Inr ((), s1)
           \<and> b = (m_pipeline s1 \<noteq> None)
           \<and> s' = s1\<lparr>trace := trace s1 @
                  (case m_pipeline s1 of None \<Rightarrow> [] | Some p \<Rightarrow> [SetState p StatePlaying])\<rparr>)"
    by (auto simp: play_def effect_def split: sum.splits option.splits)
  have returns: "m_videoSink s \<noteq> None
        \<and> (\<forall>p src. parseLaunch env (m_pipelineString s) = Some p
               \<and> findUnlinkedPad env p = Some src \<longrightarrow> parentElement env src \<noteq> None)
      \<longrightarrow> (\<exists>b s'. play env s = Inr (b, s') \<and> b = (m_pipeline s' \<noteq> None))"
    by (auto simp: play_def initialize_def stop_def effect_def emit_def Let_def
        split: option.splits)
  have false_iff: "(\<exists>s'. play env s = Inr (False, s')) \<longleftrightarrow>
        (if m_pipelineString s \<noteq> [] \<and> m_pipelineString s \<noteq> m_currentPipelineString s
         then parseLaunch env (m_pipelineString s) = None
              \<or> (\<exists>p. parseLaunch env (m_pipelineString s) = Some p \<and> findUnlinkedPad env p = None)
         else m_pipeline s = None)"
    by (auto simp: play_def initialize_def stop_def effect_def emit_def Let_def
        split: option.splits)
  have rebuilt: "m_pipelineString s \<noteq> [] \<and> m_pipelineString s \<noteq> m_currentPipelineString s
        \<and> parseLaunch env (m_pipelineString s) = Some p
        \<and> findUnlinkedPad env p = Some src
        \<and> parentElement env src = Some el
        \<and> m_videoSink s = Some sink
      \<longrightarrow> play env s =
            Inr (True,
              s\<lparr>m_currentPipelineString := m_pipelineString s, m_pipeline := Some p,
                trace := trace s
                  @ (case m_pipeline s of None \<Rightarrow> []
                     | Some old \<Rightarrow> [SetState old StateNull, BinRemove old (m_videoSink s)])
                  @ [ParseLaunch (m_pipelineString s),
                     SetProperty el ''caps'' (CapsValue ''video/x-raw, format=I420''),
                     SetProperty sink ''sync'' (BoolValue False),
                     BinAdd p sink, Link el sink,
                     AddSignalWatch (bus env p), ConnectMessage (bus env p),
                     SetState p StatePlaying]\<rparr>)"
    by (simp add: play_def initialize_def stop_def effect_def Let_def split: option.splits)
  have matches: "m_pipelineString s \<noteq> [] \<and> play env s = Inr (True, t) \<longrightarrow>
        m_pipelineString t = m_pipelineString s
        \<and> m_currentPipelineString t = m_pipelineString s
        \<and> (m_pipelineString s \<noteq> m_currentPipelineString s \<longrightarrow>
             m_pipeline t = parseLaunch env (m_pipelineString s))"
    by (auto simp: play_def initialize_def stop_def effect_def emit_def Let_def
        split: option.splits if_splits)
  have empty: "m_pipelineString s = [] \<longrightarrow>
        play env s = Inr (m_pipeline s \<noteq> None,
          s\<lparr>trace := trace s @
             (case m_pipeline s of None \<Rightarrow> [] | Some old \<Rightarrow> [SetState old StatePlaying])\<rparr>)"
    by (simp add: play_def initialize_def effect_def split: option.splits)
  from first returns false_iff rebuilt matches empty show ?thesis
    by blast
qed

text \<open>The adapter that holds pipeline 1 is given another description, which the second
  framework parses: pipeline 1 is torn down, pipeline 3 built, linked and played, and the
  description committed. On the sample framework, with sink 5 set, the description
  without an unlinked source pad gives false and no pipeline.\<close>

theorem play_reconciles_then_requests_playing_witness:
  "m_pipelineString (live_player\<lparr>m_pipelineString := ''videotestsrc ! videoconvert''\<rparr>)
     \<noteq> m_currentPipelineString (live_player\<lparr>m_pipelineString := ''videotestsrc ! videoconvert''\<rparr>)
   \<and> play second_emf (live_player\<lparr>m_pipelineString := ''videotestsrc ! videoconvert''\<rparr>) =
       Inr (True,
         live_player\<lparr>m_pipelineString := ''videotestsrc ! videoconvert'',
           m_currentPipelineString := ''videotestsrc ! videoconvert'',
           m_pipeline := Some 3,
           trace := trace live_player @
             [SetState 1 StateNull, BinRemove 1 (Some 5),
              ParseLaunch ''videotestsrc ! videoconvert'',
              SetProperty 13 ''caps'' (CapsValue ''video/x-raw, format=I420''),
              SetProperty 5 ''sync'' (BoolValue False),
              BinAdd 3 5, Link 13 5, AddSignalWatch 103, ConnectMessage 103,
              SetState 3 StatePlaying]\<rparr>)
   \<and> m_videoSink (setVideoSink (Some 5) (configured_player ''videotestsrc ! videoconvert ! fakesink''))
       \<noteq> None
   \<and> (\<exists>s'. play sample_emf
              (setVideoSink (Some 5) (configured_player ''videotestsrc ! videoconvert ! fakesink''))
             = Inr (False, s') \<and> m_pipeline s' = None)"
proof -
  let ?c = "live_player\<lparr>m_pipelineString := ''videotestsrc ! videoconvert''\<rparr>"
  let ?f = "setVideoSink (Some 5) (configured_player ''videotestsrc ! videoconvert ! fakesink'')"
  have c: "m_pipelineString ?c \<noteq> []" "m_pipelineString ?c \<noteq> m_currentPipelineString ?c"
    "parseLaunch second_emf (m_pipelineString ?c) = Some 3"
    "findUnlinkedPad second_emf 3 = Some 12"
    "parentElement second_emf 12 = Some 13"
    "m_videoSink ?c = Some 5"
    by (simp_all add: live_player_eq second_emf_def)
  from play_reconciles_then_requests_playing [of second_emf ?c 3 12 13 5] c
  have rebuilt: "play second_emf ?c =
       Inr (True,
         live_player\<lparr>m_pipelineString := ''videotestsrc ! videoconvert'',
           m_currentPipelineString := ''videotestsrc ! videoconvert'',
           m_pipeline := Some 3,
           trace := trace live_player @
             [SetState 1 StateNull, BinRemove 1 (Some 5),
              ParseLaunch ''videotestsrc ! videoconvert'',
              SetProperty 13 ''caps'' (CapsValue ''video/x-raw, format=I420''),
              SetProperty 5 ''sync'' (BoolValue False),
              BinAdd 3 5, Link 13 5, AddSignalWatch 103, ConnectMessage 103,
              SetState 3 StatePlaying]\<rparr>)"
    by (simp add: live_player_eq second_emf_def)
  have f: "m_videoSink ?f \<noteq> None"
    "\<forall>p src. parseLaunch sample_emf (m_pipelineString ?f) = Some p
      \<and> findUnlinkedPad sample_emf p = Some src \<longrightarrow> parentElement sample_emf src \<noteq> None"
    by (simp_all add: setVideoSink_def sample_emf_def)
  from play_reconciles_then_requests_playing [of sample_emf ?f] f
  have returns: "\<exists>b s'. play sample_emf ?f = Inr (b, s') \<and> b = (m_pipeline s' \<noteq> None)"
    by blast
  have none: "m_pipeline (final (play sample_emf ?f)) = None"
    by (simp add: configured_player_def sample_emf_def play_def initialize_def
        GStreamerPlayer_def setVideoSink_def stop_def effect_def emit_def final_def Let_def)
  from returns none have false: "\<exists>s'. play sample_emf ?f = Inr (False, s') \<and> m_pipeline s' = None"
    by (auto simp: final_def)
  from c(2) rebuilt f(1) false show ?thesis
    by blast
qed

text \<open>
  C5. When the description is empty or equal to the current description,
  \<^verbatim>\<open>initialize()\<close> returns the adapter as it was, and \<^verbatim>\<open>play()\<close> does no more than
  request Playing of the pipeline held, if any: the pipeline, the current description
  and the triple are the same afterwards, no message box is emitted and nothing is
  parsed. With an empty description and no pipeline \<^verbatim>\<open>play()\<close> returns false on the
  adapter unchanged.
\<close>

theorem no_rebuild_when_nothing_to_build:
  assumes "m_pipelineString s = [] \<or> m_pipelineString s = m_currentPipelineString s"
  shows "initialize env s = Inr ((), s)
       \<and> play env s = Inr (m_pipeline s \<noteq> None,
             s\<lparr>trace := trace s @
                (case m_pipeline s of None \<Rightarrow> [] | Some p \<Rightarrow> [SetState p StatePlaying])\<rparr>)
       \<and> m_pipeline (final (play env s)) = m_pipeline s
       \<and> m_currentPipelineString (final (play env s)) = m_currentPipelineString s
       \<and> observable (final (play env s)) = observable s
       \<and> filter is_messageBox (effects_since s (final (play env s))) = []
       \<and> (\<forall>d. ParseLaunch d \<notin> set (effects_since s (final (play env s))))
       \<and> (m_pipelineString s = [] \<and> m_pipeline s = None \<longrightarrow> play env s = Inr (False, s))"
proof -
  from assms have init: "initialize env s = Inr ((), s)"
    by (auto simp: initialize_def)
  then have run: "play env s = Inr (m_pipeline s \<noteq> None,
             s\<lparr>trace := trace s @
                (case m_pipeline s of None \<Rightarrow> [] | Some p \<Rightarrow> [SetState p StatePlaying])\<rparr>)"
    by (simp add: play_def effect_def split: option.splits)
  have frame: "m_pipeline (final (play env s)) = m_pipeline s"
    "m_currentPipelineString (final (play env s)) = m_currentPipelineString s"
    "observable (final (play env s)) = observable s"
    unfolding run by (simp_all add: final_def observable_def)
  have quiet: "filter is_messageBox (effects_since s (final (play env s))) = []"
    "\<forall>d. ParseLaunch d \<notin> set (effects_since s (final (play env s)))"
    unfolding run by (simp_all add: final_def effects_since_def split: option.splits)
  have empty: "m_pipelineString s = [] \<and> m_pipeline s = None \<longrightarrow> play env s = Inr (False, s)"
    unfolding run by simp
  from init run frame quiet empty show ?thesis
    by blast
qed

text \<open>The fresh adapter (empty description, no pipeline), and the adapter that holds
  pipeline 1 built from its description.\<close>

theorem no_rebuild_when_nothing_to_build_witness:
  "m_pipelineString GStreamerPlayer = []
   \<and> m_pipeline GStreamerPlayer = None
   \<and> play sample_emf GStreamerPlayer = Inr (False, GStreamerPlayer)
   \<and> m_pipelineString live_player = m_currentPipelineString live_player
   \<and> play sample_emf live_player =
       Inr (True, live_player\<lparr>trace := trace live_player @ [SetState 1 StatePlaying]\<rparr>)"
proof -
  have a: "m_pipelineString GStreamerPlayer = []" "m_pipeline GStreamerPlayer = None"
    by (simp_all add: GStreamerPlayer_def)
  have b: "m_pipelineString live_player = m_currentPipelineString live_player"
    "m_pipeline live_player = Some 1"
    by (simp_all add: live_player_eq)
  from a have a': "m_pipelineString GStreamerPlayer = []
      \<or> m_pipelineString GStreamerPlayer = m_currentPipelineString GStreamerPlayer"
    by simp
  from b have b': "m_pipelineString live_player = []
      \<or> m_pipelineString live_player = m_currentPipelineString live_player"
    by simp
  from no_rebuild_when_nothing_to_build [OF a', of sample_emf] a
  have fresh: "play sample_emf GStreamerPlayer = Inr (False, GStreamerPlayer)"
    by blast
  from no_rebuild_when_nothing_to_build [OF b', of sample_emf] b(2)
  have live: "play sample_emf live_player =
       Inr (True, live_player\<lparr>trace := trace live_player @ [SetState 1 StatePlaying]\<rparr>)"
    by simp
  from a b(1) fresh live show ?thesis by blast
qed

text \<open>
  C6. When a rebuild is due (the description is neither empty nor the current one) and
  the description does not parse to a pipeline, \<^verbatim>\<open>initialize()\<close> tears the old pipeline
  down, emits the message box "Failed to create the pipeline '<desc>'!" and returns with
  no pipeline; when it parses but has no unlinked source pad, the message box is "The
  Pipeline command string has no unlinked video source element, cannot link pipeline.
  String = <desc>" and the pipeline is dropped. In both cases the current description is
  left empty and the description as it was, \<^verbatim>\<open>play()\<close> returns false, and a following
  \<^verbatim>\<open>play()\<close> (whatever the framework answers then) starts by parsing the same
  description again.
\<close>

theorem failed_rebuild_is_reported_and_retried:
  assumes "m_pipelineString s \<noteq> []"
    and "m_pipelineString s \<noteq> m_currentPipelineString s"
  shows "(parseLaunch env (m_pipelineString s) = None \<longrightarrow>
            initialize env s = Inr ((),
              s\<lparr>m_currentPipelineString := [], m_pipeline := None,
                trace := trace s
                  @ (case m_pipeline s of None \<Rightarrow> []
                     | Some old \<Rightarrow> [SetState old StateNull, BinRemove old (m_videoSink s)])
                  @ [ParseLaunch (m_pipelineString s),
                     Emit (messageBox (''Failed to create the pipeline '' @ [CHR 0x27]
                                        @ m_pipelineString s @ [CHR 0x27] @ ''!''))
                          (observable s)]\<rparr>))
       \<and> (\<forall>p. parseLaunch env (m_pipelineString s) = Some p \<and> findUnlinkedPad env p = None \<longrightarrow>
            initialize env s = Inr ((),
              s\<lparr>m_currentPipelineString := [], m_pipeline := None,
                trace := trace s
                  @ (case m_pipeline s of None \<Rightarrow> []
                     | Some old \<Rightarrow> [SetState old StateNull, BinRemove old (m_videoSink s)])
                  @ [ParseLaunch (m_pipelineString s),
                     Emit (messageBox (''The Pipeline command string has no unlinked video source element, cannot link pipeline. String = ''
                                        @ m_pipelineString s))
                          (observable s)]\<rparr>))
       \<and> (parseLaunch env (m_pipelineString s) = None
            \<or> (\<exists>p. parseLaunch env (m_pipelineString s) = Some p \<and> findUnlinkedPad env p = None) \<longrightarrow>
            (\<exists>s'. initialize env s = Inr ((), s')
               \<and> play env s = Inr (False, s')
               \<and> m_pipeline s' = None
               \<and> m_currentPipelineString s' = []
               \<and> m_pipelineString s' = m_pipelineString s
               \<and> length (filter is_messageBox (effects_since s s')) = 1
               \<and> (\<forall>env'. \<exists>rest. effects_since s' (final (play env' s'))
                                  = ParseLaunch (m_pipelineString s) # rest)))"
proof -
  let ?down = "case m_pipeline s of None \<Rightarrow> []
               | Some old \<Rightarrow> [SetState old StateNull, BinRemove old (m_videoSink s)]"
  have parse_fails: "initialize env s = Inr ((),
      s\<lparr>m_currentPipelineString := [], m_pipeline := None,
        trace := trace s @ ?down
          @ [ParseLaunch (m_pipelineString s),
             Emit (messageBox (''Failed to create the pipeline '' @ [CHR 0x27]
                                @ m_pipelineString s @ [CHR 0x27] @ ''!''))
                  (observable s)]\<rparr>)"
    if "parseLaunch env (m_pipelineString s) = None"
    using assms that
    by (simp add: initialize_def stop_def effect_def emit_def observable_def Let_def
        split: option.splits)
  have no_pad: "initialize env s = Inr ((),
      s\<lparr>m_currentPipelineString := [], m_pipeline := None,
        trace := trace s @ ?down
          @ [ParseLaunch (m_pipelineString s),
             Emit (messageBox (''The Pipeline command string has no unlinked video source element, cannot link pipeline. String = ''
                                @ m_pipelineString s))
                  (observable s)]\<rparr>)"
    if "parseLaunch env (m_pipelineString s) = Some p" "findUnlinkedPad env p = None" for p
    using assms that
    by (simp add: initialize_def stop_def effect_def emit_def observable_def Let_def
        split: option.splits)
  have after: "\<exists>s'. initialize env s = Inr ((), s')
               \<and> play env s = Inr (False, s')
               \<and> m_pipeline s' = None
               \<and> m_currentPipelineString s' = []
               \<and> m_pipelineString s' = m_pipelineString s
               \<and> length (filter is_messageBox (effects_since s s')) = 1
               \<and> (\<forall>env'. \<exists>rest. effects_since s' (final (play env' s'))
                                  = ParseLaunch (m_pipelineString s) # rest)"
    if failure: "parseLaunch env (m_pipelineString s) = None
            \<or> (\<exists>p. parseLaunch env (m_pipelineString s) = Some p \<and> findUnlinkedPad env p = None)"
  proof -
    from failure parse_fails no_pad
    obtain msg where init: "initialize env s = Inr ((),
      s\<lparr>m_currentPipelineString := [], m_pipeline := None,
        trace := trace s @ ?down
          @ [ParseLaunch (m_pipelineString s), Emit (messageBox msg) (observable s)]\<rparr>)"
      by blast
    let ?s' = "s\<lparr>m_currentPipelineString := [], m_pipeline := None,
        trace := trace s @ ?down
          @ [ParseLaunch (m_pipelineString s), Emit (messageBox msg) (observable s)]\<rparr>"
    from init have run: "play env s = Inr (False, ?s')"
      by (simp add: play_def)
    have one: "length (filter is_messageBox (effects_since s ?s')) = 1"
      by (simp add: effects_since_def split: option.splits)
    have again: "\<exists>rest. effects_since ?s' (final (play env' ?s'))
        = ParseLaunch (m_pipelineString s) # rest" for env'
      using play_parses_first [of ?s' env'] assms(1) by simp
    from init run one again show ?thesis
      by auto
  qed
  from parse_fails no_pad after show ?thesis
    by blast
qed

text \<open>On the sample framework: a description that does not parse, given to the adapter
  that holds pipeline 1, and a description without an unlinked source pad, given to a
  fresh adapter.\<close>

theorem failed_rebuild_is_reported_and_retried_witness:
  "m_pipelineString (live_player\<lparr>m_pipelineString := ''nonsense''\<rparr>) \<noteq> []
   \<and> parseLaunch sample_emf ''nonsense'' = None
   \<and> effects_since live_player
        (final (initialize sample_emf (live_player\<lparr>m_pipelineString := ''nonsense''\<rparr>))) =
        [SetState 1 StateNull, BinRemove 1 (Some 5), ParseLaunch ''nonsense'',
         Emit (messageBox (''Failed to create the pipeline '' @ [CHR 0x27] @ ''nonsense''
                             @ [CHR 0x27] @ ''!'')) (False, False, True)]
   \<and> parseLaunch sample_emf ''videotestsrc ! videoconvert ! fakesink'' = Some 2
   \<and> findUnlinkedPad sample_emf 2 = None
   \<and> initialize sample_emf (configured_player ''videotestsrc ! videoconvert ! fakesink'') =
       Inr ((), (configured_player ''videotestsrc ! videoconvert ! fakesink'')
         \<lparr>trace := [ParseLaunch ''videotestsrc ! videoconvert ! fakesink'',
                    Emit (messageBox ''The Pipeline command string has no unlinked video source element, cannot link pipeline. String = videotestsrc ! videoconvert ! fakesink'')
                         (False, False, True)]\<rparr>)"
proof -
  let ?a = "live_player\<lparr>m_pipelineString := ''nonsense''\<rparr>"
  let ?b = "configured_player ''videotestsrc ! videoconvert ! fakesink''"
  have a: "m_pipelineString ?a \<noteq> []" "m_pipelineString ?a \<noteq> m_currentPipelineString ?a"
    "parseLaunch sample_emf (m_pipelineString ?a) = None"
    by (simp_all add: live_player_eq sample_emf_def)
  have b: "m_pipelineString ?b \<noteq> []" "m_pipelineString ?b \<noteq> m_currentPipelineString ?b"
    "parseLaunch sample_emf (m_pipelineString ?b) = Some 2" "findUnlinkedPad sample_emf 2 = None"
    by (simp_all add: configured_player_def GStreamerPlayer_def sample_emf_def)
  from failed_rebuild_is_reported_and_retried [OF a(1,2), of sample_emf] a(3)
  have "effects_since live_player (final (initialize sample_emf ?a)) =
        [SetState 1 StateNull, BinRemove 1 (Some 5), ParseLaunch ''nonsense'',
         Emit (messageBox (''Failed to create the pipeline '' @ [CHR 0x27] @ ''nonsense''
                             @ [CHR 0x27] @ ''!'')) (False, False, True)]"
    by (simp add: final_def effects_since_def live_player_eq observable_def)
  moreover
  from failed_rebuild_is_reported_and_retried [OF b(1,2), of sample_emf] b(3,4)
  have "initialize sample_emf ?b =
       Inr ((), ?b\<lparr>trace := [ParseLaunch ''videotestsrc ! videoconvert ! fakesink'',
                    Emit (messageBox ''The Pipeline command string has no unlinked video source element, cannot link pipeline. String = videotestsrc ! videoconvert ! fakesink'')
                         (False, False, True)]\<rparr>)"
    by (simp add: configured_player_def GStreamerPlayer_def observable_def)
  moreover have "parseLaunch sample_emf ''nonsense'' = None"
    "parseLaunch sample_emf ''videotestsrc ! videoconvert ! fakesink'' = Some 2"
    by (simp_all add: sample_emf_def)
  ultimately show ?thesis
    using a(1) b(4) by blast
qed

subsection \<open>The timer slots\<close>

text \<open>
  C7. The slot of the stop timer emits stoppedChanged(true), pausedChanged(false),
  playingChanged(false), in this order, and then does what \<^verbatim>\<open>stop()\<close> does (it calls it on
  the state so published). The slot of the play timer sets the triple to (true, false,
  false), emitting playingChanged(true), pausedChanged(false), stoppedChanged(false), and
  then is \<^verbatim>\<open>play()\<close> on the state so published: all that \<^verbatim>\<open>play()\<close> does comes after
  the three notifications in the trace, and it emits no further notification of the triple.
\<close>

theorem timers_notify_before_transition:
  "onStopTimer s =
     stop (s\<lparr>m_stopTimer := (m_stopTimer s)\<lparr>active := False\<rparr>,
             m_stopped := True, m_paused := False, m_playing := False,
             trace := trace s @
               [Emit (stoppedChanged True) (m_playing s, m_paused s, True),
                Emit (pausedChanged False) (m_playing s, False, True),
                Emit (playingChanged False) (False, False, True)]\<rparr>)
   \<and> trace (onStopTimer s) =
       trace s @
         [Emit (stoppedChanged True) (m_playing s, m_paused s, True),
          Emit (pausedChanged False) (m_playing s, False, True),
          Emit (playingChanged False) (False, False, True)]
         @ (case m_pipeline s of None \<Rightarrow> [] | Some p \<Rightarrow> [SetState p StateNull])
   \<and> onPlayTimer env s =
       play env (s\<lparr>m_playTimer := (m_playTimer s)\<lparr>active := False\<rparr>,
                   m_playing := True, m_paused := False, m_stopped := False,
                   trace := trace s @
                     [Emit (playingChanged True) (True, m_paused s, m_stopped s),
                      Emit (pausedChanged False) (True, False, m_stopped s),
                      Emit (stoppedChanged False) (True, False, False)]\<rparr>)
   \<and> (\<exists>rest. trace (final (onPlayTimer env s)) =
         trace s @
           [Emit (playingChanged True) (True, m_paused s, m_stopped s),
            Emit (pausedChanged False) (True, False, m_stopped s),
            Emit (stoppedChanged False) (True, False, False)]
           @ rest
         \<and> filter is_notification rest = [])"
proof -
  have stop_eq: "onStopTimer s =
     stop (s\<lparr>m_stopTimer := (m_stopTimer s)\<lparr>active := False\<rparr>,
             m_stopped := True, m_paused := False, m_playing := False,
             trace := trace s @
               [Emit (stoppedChanged True) (m_playing s, m_paused s, True),
                Emit (pausedChanged False) (m_playing s, False, True),
                Emit (playingChanged False) (False, False, True)]\<rparr>)"
    by (simp add: onStopTimer_def emit_def effect_def observable_def Let_def)
  have stop_trace: "trace (onStopTimer s) =
       trace s @
         [Emit (stoppedChanged True) (m_playing s, m_paused s, True),
          Emit (pausedChanged False) (m_playing s, False, True),
          Emit (playingChanged False) (False, False, True)]
         @ (case m_pipeline s of None \<Rightarrow> [] | Some p \<Rightarrow> [SetState p StateNull])"
    unfolding stop_eq by (simp add: stop_def effect_def split: option.splits)
  have play_eq: "onPlayTimer env s =
       play env (s\<lparr>m_playTimer := (m_playTimer s)\<lparr>active := False\<rparr>,
                   m_playing := True, m_paused := False, m_stopped := False,
                   trace := trace s @
                     [Emit (playingChanged True) (True, m_paused s, m_stopped s),
                      Emit (pausedChanged False) (True, False, m_stopped s),
                      Emit (stoppedChanged False) (True, False, False)]\<rparr>)"
    by (simp add: onPlayTimer_def emit_def effect_def observable_def Let_def)
  have play_trace: "\<exists>rest. trace (final (onPlayTimer env s)) =
         trace s @
           [Emit (playingChanged True) (True, m_paused s, m_stopped s),
            Emit (pausedChanged False) (True, False, m_stopped s),
            Emit (stoppedChanged False) (True, False, False)]
           @ rest
         \<and> filter is_notification rest = []"
    unfolding play_eq
    using play_appends [of env "s\<lparr>m_playTimer := (m_playTimer s)\<lparr>active := False\<rparr>,
                   m_playing := True, m_paused := False, m_stopped := False,
                   trace := trace s @
                     [Emit (playingChanged True) (True, m_paused s, m_stopped s),
                      Emit (pausedChanged False) (True, False, m_stopped s),
                      Emit (stoppedChanged False) (True, False, False)]\<rparr>"]
    by simp
  from stop_eq stop_trace play_eq play_trace show ?thesis
    by blast
qed

subsection \<open>The sink and the end-of-stream event\<close>

text \<open>
  C8, as the specification states it, fails in its second half: called on the adapter
  that holds pipeline 1 with sink 5, \<^verbatim>\<open>setVideoSink\<close> does replace the stored sink.
\<close>

theorem setVideoSink_on_live_pipeline_stores:
  "m_pipeline live_player = Some 1
   \<and> m_videoSink live_player = Some 5
   \<and> m_videoSink (setVideoSink (Some 9) live_player) = Some 9"
  by (simp add: live_player_eq setVideoSink_def)

text \<open>
  C8, amended. \<^verbatim>\<open>setVideoSink\<close> always stores the reference it is given, whether or
  not a pipeline is held, and does nothing else: the triple, both descriptions, the
  pipeline, the timers and the trace (so nothing is emitted and the framework is not
  called) are as before.
\<close>

theorem setVideoSink_only_stores:
  "m_videoSink (setVideoSink sink s) = sink
   \<and> observable (setVideoSink sink s) = observable s
   \<and> m_pipeline (setVideoSink sink s) = m_pipeline s
   \<and> m_pipelineString (setVideoSink sink s) = m_pipelineString s
   \<and> m_currentPipelineString (setVideoSink sink s) = m_currentPipelineString s
   \<and> m_stopTimer (setVideoSink sink s) = m_stopTimer s
   \<and> m_playTimer (setVideoSink sink s) = m_playTimer s
   \<and> trace (setVideoSink sink s) = trace s
   \<and> setVideoSink (m_videoSink s) (setVideoSink sink s) = s"
  by (simp add: setVideoSink_def observable_def)

text \<open>
  C9. Without a pipeline \<^verbatim>\<open>sendEOS\<close> leaves the adapter as it was and does nothing;
  with a pipeline it sends one end-of-stream event to it and changes nothing else.
\<close>

theorem sendEOS_posts_once_or_nothing:
  "(m_pipeline s = None \<longrightarrow> sendEOS s = s \<and> effects_since s (sendEOS s) = [])
   \<and> (m_pipeline s = Some p \<longrightarrow>
        effects_since s (sendEOS s) = [SendEvent p]
        \<and> sendEOS s = s\<lparr>trace := trace s @ [SendEvent p]\<rparr>)"
  by (simp add: sendEOS_def effect_def effects_since_def)

theorem sendEOS_posts_once_or_nothing_witness:
  "m_pipeline GStreamerPlayer = None
   \<and> sendEOS GStreamerPlayer = GStreamerPlayer
   \<and> m_pipeline live_player = Some 1
   \<and> effects_since live_player (sendEOS live_player) = [SendEvent 1]"
proof -
  have a: "m_pipeline GStreamerPlayer = None" by (simp add: GStreamerPlayer_def)
  have b: "m_pipeline live_player = Some 1" by (simp add: live_player_eq)
  from a b sendEOS_posts_once_or_nothing [of GStreamerPlayer 1]
    sendEOS_posts_once_or_nothing [of live_player 1]
  show ?thesis by (simp add: effects_since_def)
qed

end
